theory Spec2Isabelle
  imports Complex_Main "HOL-Library.Sublist"
begin

section \<open>The text-to-SQL pipeline of examples/pipelines/rag/text_to_sql_pipeline.py\<close>

text \<open>
  The file defines one class, \<open>Pipeline\<close>, with a constructor and four methods. It is glue
  over three libraries (SQLAlchemy, LlamaIndex, the Ollama client) whose code is not part
  of the repository. The embedding therefore keeps the class exactly as written and makes
  every call that leaves the file explicit: each such call is appended, with the arguments
  it was given and with its outcome, to a log of events, and what the library answers is a
  parameter of the model. Python objects created by the libraries are references
  (numbers handed out in order), so that two objects built from equal arguments are still
  two objects.
\<close>

subsection \<open>Errors and the process environment\<close>

text \<open>
  \<open>KeyError k\<close> is what \<open>os.environ[k]\<close> raises for an absent key. \<open>LibraryError m\<close>
  stands for any exception raised inside a library call; the file catches none of them.
\<close>

datatype error = KeyError string | LibraryError string

type_synonym environ = "string \<rightharpoonup> string"

definition environ_getitem :: "environ \<Rightarrow> string \<Rightarrow> error + string" where
  "environ_getitem env k = (case env k of None \<Rightarrow> Inl (KeyError k) | Some v \<Rightarrow> Inr v)"

subsection \<open>The instance\<close>

type_synonym ref = nat

text \<open>
  The ten attributes assigned by \<open>__init__\<close>. \<open>engine\<close> holds \<open>None\<close> or a reference to
  the object returned by \<open>create_engine\<close>.
\<close>

record Pipeline =
  PG_HOST :: string
  PG_PORT :: string
  PG_USER :: string
  PG_PASSWORD :: string
  PG_DB :: string
  ollama_host :: string
  model :: string
  engine :: "ref option"
  nlsql_response :: string
  tables :: "string list"

text \<open>
  \<open>__init__\<close>: five reads of the environment in the order of the source, the first absent
  key raising, then five constants.
\<close>

definition init :: "environ \<Rightarrow> error + Pipeline" where
  "init env =
    (case environ_getitem env ''PG_HOST'' of Inl e \<Rightarrow> Inl e | Inr host \<Rightarrow>
    (case environ_getitem env ''PG_PORT'' of Inl e \<Rightarrow> Inl e | Inr port \<Rightarrow>
    (case environ_getitem env ''PG_USER'' of Inl e \<Rightarrow> Inl e | Inr user \<Rightarrow>
    (case environ_getitem env ''PG_PASSWORD'' of Inl e \<Rightarrow> Inl e | Inr password \<Rightarrow>
    (case environ_getitem env ''PG_DB'' of Inl e \<Rightarrow> Inl e | Inr db \<Rightarrow>
      Inr \<lparr> PG_HOST = host, PG_PORT = port, PG_USER = user, PG_PASSWORD = password,
            PG_DB = db,
            ollama_host = ''http://host.docker.internal:11434'',
            model = ''phi3:medium-128k'',
            engine = None,
            nlsql_response = [],
            tables = [''db_table''] \<rparr>)))))"

subsection \<open>Calls into the libraries\<close>

text \<open>
  One constructor per call that the file makes, with the arguments in the order the source
  writes them:
  \<^item> \<open>create_engine(url)\<close>;
  \<^item> \<open>SQLDatabase(engine, include_tables)\<close>;
  \<^item> \<open>Ollama(model, base_url, request_timeout, context_window)\<close>;
  \<^item> \<open>PromptTemplate(template)\<close>;
  \<^item> \<open>NLSQLTableQueryEngine(sql_database, tables, llm, embed_model, text_to_sql_prompt,
    streaming)\<close>;
  \<^item> \<open>query_engine.query(user_message)\<close>.
  The float literal \<open>180.0\<close> is the real number 180; \<open>30000\<close> is a Python integer.
\<close>

datatype call =
    Call_create_engine string
  | Call_SQLDatabase "ref option" "string list"
  | Call_Ollama string string real int
  | Call_PromptTemplate string
  | Call_NLSQLTableQueryEngine ref "string list" ref string ref bool
  | Call_query ref string

text \<open>An event is a call with its outcome: the exception raised or the object returned.\<close>

type_synonym event = "call \<times> (error + ref)"

record world =
  trace :: "event list"
  next_ref :: ref

text \<open>
  The libraries, as far as the file can observe them: whether a call raises (which may depend
  on everything that happened before), and the fragments that the \<open>response_gen\<close> of a
  response object yields.
\<close>

record library =
  raises :: "event list \<Rightarrow> call \<Rightarrow> error option"
  response_gen :: "event list \<Rightarrow> ref \<Rightarrow> string list"

definition invoke :: "library \<Rightarrow> call \<Rightarrow> world \<Rightarrow> (error + ref) \<times> world" where
  "invoke L c w =
    (case raises L (trace w) c of
       Some e \<Rightarrow> (Inl e, w\<lparr>trace := trace w @ [(c, Inl e)]\<rparr>)
     | None \<Rightarrow> (Inr (next_ref w),
                 \<lparr>trace = trace w @ [(c, Inr (next_ref w))], next_ref = Suc (next_ref w)\<rparr>))"

subsection \<open>The methods\<close>

text \<open>The f-string of \<open>init_db_connection\<close>; every interpolated attribute is a \<open>str\<close>.\<close>

definition engine_url :: "Pipeline \<Rightarrow> string" where
  "engine_url p =
     ''postgresql+psycopg2://'' @ PG_USER p @ '':'' @ PG_PASSWORD p @ ''@'' @ PG_HOST p
       @ '':'' @ PG_PORT p @ ''/'' @ PG_DB p"

text \<open>
  A method takes the instance and the world and returns its result (or the exception that
  leaves it), the instance and the world afterwards. When \<open>create_engine\<close> raises, the
  assignment to \<open>self.engine\<close> is not reached.
\<close>

definition init_db_connection ::
  "library \<Rightarrow> Pipeline \<Rightarrow> world \<Rightarrow> (error + ref) \<times> Pipeline \<times> world" where
  "init_db_connection L p w =
    (case invoke L (Call_create_engine (engine_url p)) w of
       (Inl e, w') \<Rightarrow> (Inl e, p, w')
     | (Inr h, w') \<Rightarrow> (Inr h, p\<lparr>engine := Some h\<rparr>, w'))"

text \<open>\<open>on_startup\<close> and \<open>on_shutdown\<close> are coroutines; the model is the awaited body.\<close>

definition on_startup ::
  "library \<Rightarrow> Pipeline \<Rightarrow> world \<Rightarrow> (error + unit) \<times> Pipeline \<times> world" where
  "on_startup L p w =
    (case init_db_connection L p w of
       (Inl e, p', w') \<Rightarrow> (Inl e, p', w')
     | (Inr h, p', w') \<Rightarrow> (Inr (), p', w'))"

definition on_shutdown :: "Pipeline \<Rightarrow> world \<Rightarrow> (error + unit) \<times> Pipeline \<times> world" where
  "on_shutdown p w = (Inr (), p, w)"

text \<open>
  The triple-quoted literal of \<open>pipe\<close>: one row for each of its nineteen lines, with the
  indentation and the trailing blanks of the source. Within a row the text is cut before
  and after each \<open>{...}\<close> and around five sentences, which changes nothing in the string
  and lets the proofs below address these pieces.
\<close>

definition text_to_sql_prompt :: string where
  "text_to_sql_prompt =
     ''\<newline>'' @
     ''        Given an input question, first create a syntactically correct '' @ ''{dialect}'' @ '' query to run, then look at the results of the query and return the answer. \<newline>'' @
     ''        You can order the results by a relevant column to return the most interesting examples in the database.\<newline>'' @
     ''        '' @ ''Unless the user specifies in the question a specific number of examples to obtain, query for at most 5 results using the LIMIT clause'' @ '' as per Postgres. You can order the results to return the most informative data in the database.\<newline>'' @
     ''        '' @ ''Never query for all the columns from a specific table'' @ '', only ask for a few relevant columns given the question.\<newline>'' @
     ''        '' @ ''You should use DISTINCT statements'' @ '' and avoid returning duplicates wherever possible.\<newline>'' @
     ''        Pay attention to use only the column names that you can see in the schema description. Be careful to not query for columns that do not exist. Pay attention to which column is in which table. Also, '' @ ''qualify column names with the table name when needed'' @ ''. You are required to use the following format, each taking one line:\<newline>'' @
     ''\<newline>'' @
     ''        Question: Question here\<newline>'' @
     ''        SQLQuery: SQL Query to run\<newline>'' @
     ''        SQLResult: Result of the SQLQuery\<newline>'' @
     ''        Answer: Final answer here\<newline>'' @
     ''\<newline>'' @
     ''        '' @ ''Only use tables listed below.'' @ ''\<newline>'' @
     ''        '' @ ''{schema}'' @ ''\<newline>'' @
     ''\<newline>'' @
     ''        Question: '' @ ''{query_str}'' @ ''\<newline>'' @
     ''        SQLQuery: \<newline>'' @
     ''        ''"

text \<open>
  \<open>pipe\<close>. A dictionary is an association list; \<open>body\<close> is opaque. The result is the
  \<open>response_gen\<close> of the response, as the list of fragments it yields.
\<close>

type_synonym 'v dict = "(string \<times> 'v) list"

definition pipe ::
  "library \<Rightarrow> Pipeline \<Rightarrow> string \<Rightarrow> string \<Rightarrow> string dict list \<Rightarrow> 'b \<Rightarrow> world
     \<Rightarrow> (error + string list) \<times> Pipeline \<times> world" where
  "pipe L p user_message model_id messages body w =
    (case invoke L (Call_SQLDatabase (engine p) (tables p)) w of
       (Inl e, w1) \<Rightarrow> (Inl e, p, w1)
     | (Inr sql_database, w1) \<Rightarrow>
    (case invoke L (Call_Ollama (model p) (ollama_host p) 180 30000) w1 of
       (Inl e, w2) \<Rightarrow> (Inl e, p, w2)
     | (Inr llm, w2) \<Rightarrow>
    (case invoke L (Call_PromptTemplate text_to_sql_prompt) w2 of
       (Inl e, w3) \<Rightarrow> (Inl e, p, w3)
     | (Inr text_to_sql_template, w3) \<Rightarrow>
    (case invoke L (Call_NLSQLTableQueryEngine sql_database (tables p) llm ''local''
                      text_to_sql_template True) w3 of
       (Inl e, w4) \<Rightarrow> (Inl e, p, w4)
     | (Inr query_engine, w4) \<Rightarrow>
    (case invoke L (Call_query query_engine user_message) w4 of
       (Inl e, w5) \<Rightarrow> (Inl e, p, w5)
     | (Inr response, w5) \<Rightarrow> (Inr (response_gen L (trace w5) response), p, w5))))))"

subsection \<open>The host and the log\<close>

text \<open>
  The server that hosts the pipeline is not part of the file. It may call the methods of an
  instance in any order and any number of times, and an exception that leaves a method does
  not destroy the instance. A request is one such call; \<open>serve\<close> runs a list of them.
\<close>

datatype 'b request =
    Startup
  | Shutdown
  | Init_db
  | Pipe string string "string dict list" 'b

fun handle :: "library \<Rightarrow> 'b request \<Rightarrow> Pipeline \<times> world \<Rightarrow> Pipeline \<times> world" where
  "handle L Startup (p, w) = snd (on_startup L p w)"
| "handle L Shutdown (p, w) = snd (on_shutdown p w)"
| "handle L Init_db (p, w) = snd (init_db_connection L p w)"
| "handle L (Pipe user_message model_id messages body) (p, w) =
     snd (pipe L p user_message model_id messages body w)"

definition serve :: "library \<Rightarrow> 'b request list \<Rightarrow> Pipeline \<times> world \<Rightarrow> Pipeline \<times> world" where
  "serve L rs s = fold (handle L) rs s"

text \<open>The events that were appended between an earlier world and a later one.\<close>

definition emitted :: "world \<Rightarrow> world \<Rightarrow> event list" where
  "emitted w w' = drop (length (trace w)) (trace w')"

text \<open>
  The references handed out by the calls of a log, and the worlds in which every one of
  them lies below the next reference to hand out.
\<close>

definition returned :: "event list \<Rightarrow> ref list" where
  "returned t = concat (map (\<lambda>(c, r). case r of Inl e \<Rightarrow> [] | Inr h \<Rightarrow> [h]) t)"

definition allocated :: "world \<Rightarrow> bool" where
  "allocated w \<longleftrightarrow> (\<forall>h \<in> set (returned (trace w)). h < next_ref w)"

definition world0 :: world where
  "world0 = \<lparr>trace = [], next_ref = 0\<rparr>"

text \<open>The five keys that \<open>__init__\<close> reads, in its order.\<close>

definition required_vars :: "string list" where
  "required_vars = [''PG_HOST'', ''PG_PORT'', ''PG_USER'', ''PG_PASSWORD'', ''PG_DB'']"

subsection \<open>Substitution points of a template\<close>

text \<open>
  \<open>PromptTemplate\<close> reads its argument as a Python format string: \<open>{name}\<close> is a
  replacement field, \<open>{{\<close> and \<open>}}\<close> stand for the two braces, and a brace on its own is
  malformed (\<open>None\<close>). \<open>template_vars\<close> lists the names of the fields in order.
  Conversions and format specifications inside a field are not separated from the name.
\<close>

datatype scan_state = In_text | After_open | In_field string | After_close

fun scan_fields :: "scan_state \<Rightarrow> string \<Rightarrow> string list option" where
  "scan_fields In_text [] = Some []"
| "scan_fields After_open [] = None"
| "scan_fields (In_field n) [] = None"
| "scan_fields After_close [] = None"
| "scan_fields In_text (c # cs) =
     (if c = CHR 0x7B then scan_fields After_open cs
      else if c = CHR 0x7D then scan_fields After_close cs
      else scan_fields In_text cs)"
| "scan_fields After_open (c # cs) =
     (if c = CHR 0x7B then scan_fields In_text cs
      else if c = CHR 0x7D then map_option (Cons []) (scan_fields In_text cs)
      else scan_fields (In_field [c]) cs)"
| "scan_fields (In_field n) (c # cs) =
     (if c = CHR 0x7D then map_option (Cons n) (scan_fields In_text cs)
      else scan_fields (In_field (n @ [c])) cs)"
| "scan_fields After_close (c # cs) =
     (if c = CHR 0x7D then scan_fields In_text cs else None)"

definition template_vars :: "string \<Rightarrow> string list option" where
  "template_vars s = scan_fields In_text s"

subsection \<open>A concrete environment and a concrete library\<close>

text \<open>
  Used to run the model on concrete inputs: an environment with the five keys, and
  libraries in which no call raises, respectively in which the schema view cannot be built
  on \<open>None\<close>.
\<close>

definition example_environ :: environ where
  "example_environ =
     [''PG_HOST'' \<mapsto> ''db'', ''PG_PORT'' \<mapsto> ''5432'', ''PG_USER'' \<mapsto> ''u'',
      ''PG_PASSWORD'' \<mapsto> ''pw'', ''PG_DB'' \<mapsto> ''shop'']"

definition example_pipeline :: Pipeline where
  "example_pipeline =
     \<lparr> PG_HOST = ''db'', PG_PORT = ''5432'', PG_USER = ''u'', PG_PASSWORD = ''pw'',
       PG_DB = ''shop'',
       ollama_host = ''http://host.docker.internal:11434'',
       model = ''phi3:medium-128k'',
       engine = None,
       nlsql_response = [],
       tables = [''db_table''] \<rparr>"

definition obliging :: library where
  "obliging = \<lparr>raises = (\<lambda>t c. None), response_gen = (\<lambda>t r. [''4'', ''2''])\<rparr>"

definition pipe_call :: "Pipeline \<Rightarrow> string \<Rightarrow> call \<Rightarrow> bool" where
  "pipe_call p um c =
     (case c of
        Call_create_engine url \<Rightarrow> False
      | Call_SQLDatabase eng ts \<Rightarrow> eng = engine p \<and> ts = tables p
      | Call_Ollama m u t cw \<Rightarrow> m = model p \<and> u = ollama_host p \<and> t = 180 \<and> cw = 30000
      | Call_PromptTemplate s \<Rightarrow> s = text_to_sql_prompt
      | Call_NLSQLTableQueryEngine db ts llm em t st \<Rightarrow> ts = tables p \<and> em = ''local'' \<and> st
      | Call_query qe q \<Rightarrow> q = um)"

definition any_call :: "Pipeline \<Rightarrow> call \<Rightarrow> bool" where
  "any_call p c \<longleftrightarrow>
     c = Call_create_engine (engine_url p) \<or> (\<exists>x um. pipe_call (p\<lparr>engine := x\<rparr>) um c)"

subsection \<open>Facts about calls into the libraries\<close>

lemma invoke_trace: "invoke L c w = (r, w') \<Longrightarrow> trace w' = trace w @ [(c, r)]"
  by (auto simp: invoke_def split: option.splits)

lemma invoke_InrD:
  "invoke L c w = (Inr h, w') \<Longrightarrow>
     h = next_ref w \<and> raises L (trace w) c = None \<and>
     w' = \<lparr>trace = trace w @ [(c, Inr (next_ref w))], next_ref = Suc (next_ref w)\<rparr>"
  by (auto simp: invoke_def split: option.splits)

lemma invoke_InlD:
  "invoke L c w = (Inl e, w') \<Longrightarrow>
     raises L (trace w) c = Some e \<and>
     w' = \<lparr>trace = trace w @ [(c, Inl e)], next_ref = next_ref w\<rparr>"
  by (auto simp: invoke_def split: option.splits)

lemma invoke_None:
  "raises L (trace w) c = None \<Longrightarrow>
     invoke L c w =
       (Inr (next_ref w),
        \<lparr>trace = trace w @ [(c, Inr (next_ref w))], next_ref = Suc (next_ref w)\<rparr>)"
  by (simp add: invoke_def)

lemma invoke_Some:
  "raises L (trace w) c = Some e \<Longrightarrow>
     invoke L c w = (Inl e, \<lparr>trace = trace w @ [(c, Inl e)], next_ref = next_ref w\<rparr>)"
  by (simp add: invoke_def)

lemma returned_append: "returned (t @ u) = returned t @ returned u"
  by (simp add: returned_def)

lemma returned_single: "returned [(c, r)] = (case r of Inl e \<Rightarrow> [] | Inr h \<Rightarrow> [h])"
  by (simp add: returned_def)

lemma allocated_step:
  "allocated w \<Longrightarrow>
     allocated \<lparr>trace = trace w @ [(c, Inr (next_ref w))], next_ref = Suc (next_ref w)\<rparr>"
  "allocated w \<Longrightarrow> allocated \<lparr>trace = trace w @ [(c, Inl e)], next_ref = next_ref w\<rparr>"
  unfolding allocated_def by (auto simp: returned_append returned_single less_Suc_eq)

lemma invoke_allocated: "allocated w \<Longrightarrow> invoke L c w = (r, w') \<Longrightarrow> allocated w'"
  by (cases r) (auto dest!: invoke_InrD invoke_InlD simp: allocated_step)

lemma invoke_fresh: "allocated w \<Longrightarrow> invoke L c w = (Inr h, w') \<Longrightarrow> h \<notin> set (returned (trace w))"
  by (auto simp: allocated_def dest!: invoke_InrD)

lemma emitted_append: "trace w' = trace w @ evs \<Longrightarrow> emitted w w' = evs"
  by (simp add: emitted_def)

subsection \<open>init\<close>

lemma init_Inr:
  "init env = Inr p \<Longrightarrow>
     env ''PG_HOST'' = Some (PG_HOST p) \<and> env ''PG_PORT'' = Some (PG_PORT p) \<and>
     env ''PG_USER'' = Some (PG_USER p) \<and> env ''PG_PASSWORD'' = Some (PG_PASSWORD p) \<and>
     env ''PG_DB'' = Some (PG_DB p) \<and>
     ollama_host p = ''http://host.docker.internal:11434'' \<and> model p = ''phi3:medium-128k'' \<and>
     engine p = None \<and> nlsql_response p = [] \<and> tables p = [''db_table'']"
  by (auto simp: init_def environ_getitem_def split: option.splits sum.splits)

lemma init_Inl:
  "init env = Inl e \<Longrightarrow> \<exists>k \<in> set required_vars. env k = None \<and> e = KeyError k"
  by (auto simp: init_def environ_getitem_def required_vars_def split: option.splits sum.splits)

lemma init_missing:
  "k \<in> set required_vars \<Longrightarrow> env k = None \<Longrightarrow> \<exists>e. init env = Inl e"
  by (auto simp: init_def environ_getitem_def required_vars_def split: option.splits sum.splits)

text \<open>
  Claim C3. For each of the five keys \<open>PG_HOST\<close>, \<open>PG_PORT\<close>, \<open>PG_USER\<close>, \<open>PG_PASSWORD\<close>,
  \<open>PG_DB\<close>: when the key is absent from the environment, the constructor raises (a
  \<open>KeyError\<close> naming an absent key), so no instance exists on which a request could be
  served; when all five are present, the constructor returns an instance that holds the
  five values.
\<close>

theorem init_fails_iff_variable_missing:
  "(\<forall>k \<in> set required_vars. env k = None \<longrightarrow>
      (\<exists>k' \<in> set required_vars. env k' = None \<and> init env = Inl (KeyError k'))) \<and>
   ((\<forall>k \<in> set required_vars. env k \<noteq> None) \<longrightarrow>
      (\<exists>p. init env = Inr p \<and>
         env ''PG_HOST'' = Some (PG_HOST p) \<and> env ''PG_PORT'' = Some (PG_PORT p) \<and>
         env ''PG_USER'' = Some (PG_USER p) \<and> env ''PG_PASSWORD'' = Some (PG_PASSWORD p) \<and>
         env ''PG_DB'' = Some (PG_DB p)))"
proof (intro conjI ballI impI)
  fix k assume "k \<in> set required_vars" and "env k = None"
  then obtain e where e: "init env = Inl e"
    using init_missing by blast
  with init_Inl show "\<exists>k' \<in> set required_vars. env k' = None \<and> init env = Inl (KeyError k')"
    by blast
next
  assume all: "\<forall>k \<in> set required_vars. env k \<noteq> None"
  show "\<exists>p. init env = Inr p \<and>
         env ''PG_HOST'' = Some (PG_HOST p) \<and> env ''PG_PORT'' = Some (PG_PORT p) \<and>
         env ''PG_USER'' = Some (PG_USER p) \<and> env ''PG_PASSWORD'' = Some (PG_PASSWORD p) \<and>
         env ''PG_DB'' = Some (PG_DB p)"
  proof (cases "init env")
    case (Inl e)
    with init_Inl all show ?thesis by blast
  next
    case (Inr p)
    with init_Inr show ?thesis by blast
  qed
qed

lemma init_example: "init example_environ = Inr example_pipeline"
  by (simp add: init_def example_environ_def example_pipeline_def environ_getitem_def)

theorem init_fails_iff_variable_missing_witness:
  "(\<exists>k' \<in> set required_vars. (example_environ(''PG_PORT'' := None)) k' = None \<and>
      init (example_environ(''PG_PORT'' := None)) = Inl (KeyError k')) \<and>
   (\<exists>p. init example_environ = Inr p \<and> example_environ ''PG_HOST'' = Some (PG_HOST p))"
proof -
  have a: "''PG_PORT'' \<in> set required_vars"
    by (simp add: required_vars_def)
  have b: "(example_environ(''PG_PORT'' := None)) ''PG_PORT'' = None"
    by simp
  have c: "\<forall>k \<in> set required_vars. example_environ k \<noteq> None"
    by (simp add: required_vars_def example_environ_def)
  show ?thesis
    using init_fails_iff_variable_missing [of "example_environ(''PG_PORT'' := None)"]
      init_fails_iff_variable_missing [of example_environ] a b c
    by blast
qed


subsection \<open>The methods, one by one\<close>

lemma init_db_connection_Inr:
  "init_db_connection L p w = (Inr h, p', w') \<Longrightarrow>
     p' = p\<lparr>engine := Some h\<rparr> \<and> h = next_ref w \<and> next_ref w' = Suc h \<and>
     trace w' = trace w @ [(Call_create_engine (engine_url p), Inr h)]"
  by (auto simp: init_db_connection_def split: prod.splits sum.splits dest!: invoke_InrD)

lemma init_db_connection_Inl:
  "init_db_connection L p w = (Inl e, p', w') \<Longrightarrow>
     p' = p \<and> next_ref w' = next_ref w \<and>
     trace w' = trace w @ [(Call_create_engine (engine_url p), Inl e)]"
  by (auto simp: init_db_connection_def split: prod.splits sum.splits dest!: invoke_InlD)

lemma init_db_connection_allocated:
  "allocated w \<Longrightarrow> init_db_connection L p w = (r, p', w') \<Longrightarrow> allocated w'"
  by (auto simp: init_db_connection_def split: prod.splits sum.splits
      dest: invoke_allocated)

lemma on_startup_eq:
  "on_startup L p w = (r, p', w') \<Longrightarrow>
     \<exists>r0. init_db_connection L p w = (r0, p', w') \<and> r = map_sum id (\<lambda>h. ()) r0"
  by (auto simp: on_startup_def split: prod.splits sum.splits)

lemma pipe_instance: "fst (snd (pipe L p um mid ms b w)) = p"
  by (simp add: pipe_def split: prod.splits sum.splits)

lemma pipe_allocated:
  "allocated w \<Longrightarrow> pipe L p um mid ms b w = (r, p', w') \<Longrightarrow> allocated w'"
  by (auto simp: pipe_def allocated_def returned_def less_Suc_eq
      split: prod.splits sum.splits dest!: invoke_InrD invoke_InlD)

text \<open>The run of \<open>pipe\<close> in which no call raises.\<close>

lemma pipe_Inr:
  assumes "pipe L p um mid ms b w = (Inr chunks, p', w')"
  shows "trace w' = trace w @
           [(Call_SQLDatabase (engine p) (tables p), Inr (next_ref w)),
            (Call_Ollama (model p) (ollama_host p) 180 30000, Inr (next_ref w + 1)),
            (Call_PromptTemplate text_to_sql_prompt, Inr (next_ref w + 2)),
            (Call_NLSQLTableQueryEngine (next_ref w) (tables p) (next_ref w + 1) ''local''
               (next_ref w + 2) True, Inr (next_ref w + 3)),
            (Call_query (next_ref w + 3) um, Inr (next_ref w + 4))]"
    and "chunks = response_gen L (trace w') (next_ref w + 4)"
    and "next_ref w' = next_ref w + 5"
  using assms
  by (auto simp: pipe_def eval_nat_numeral split: prod.splits sum.splits dest!: invoke_InrD)

lemma any_call_engine [simp]: "any_call (p\<lparr>engine := x\<rparr>) c = any_call p c"
  by (simp add: any_call_def engine_url_def)

lemma pipe_call_any: "pipe_call p um c \<Longrightarrow> any_call p c"
  unfolding any_call_def by (metis Pipeline.surjective Pipeline.update_convs(8))

lemma pipe_calls:
  "pipe L p um mid ms b w = (r, p', w') \<Longrightarrow>
     p' = p \<and> (\<exists>evs. trace w' = trace w @ evs \<and> (\<forall>e \<in> set evs. pipe_call p um (fst e)))"
  by (auto simp: pipe_def pipe_call_def split: prod.splits sum.splits
      dest!: invoke_InrD invoke_InlD)

lemma init_db_connection_calls:
  "init_db_connection L p w = (r, p', w') \<Longrightarrow>
     p' = p\<lparr>engine := engine p'\<rparr> \<and>
     (\<exists>evs. trace w' = trace w @ evs \<and> (\<forall>e \<in> set evs. any_call p (fst e)))"
  by (cases r) (auto simp: any_call_def dest!: init_db_connection_Inr init_db_connection_Inl)

lemma handle_calls:
  "handle L r (p, w) = (p', w') \<Longrightarrow>
     p' = p\<lparr>engine := engine p'\<rparr> \<and>
     (\<exists>evs. trace w' = trace w @ evs \<and> (\<forall>e \<in> set evs. any_call p (fst e)))"
proof (cases r)
  case Startup
  assume "handle L r (p, w) = (p', w')"
  with Startup obtain r0 where "on_startup L p w = (r0, p', w')"
    by (metis handle.simps(1) prod.collapse snd_conv)
  then show ?thesis
    using on_startup_eq init_db_connection_calls by blast
next
  case Shutdown
  assume "handle L r (p, w) = (p', w')"
  with Shutdown show ?thesis by (simp add: on_shutdown_def)
next
  case Init_db
  assume "handle L r (p, w) = (p', w')"
  with Init_db obtain r0 where "init_db_connection L p w = (r0, p', w')"
    by (metis handle.simps(3) prod.collapse snd_conv)
  then show ?thesis
    using init_db_connection_calls by blast
next
  case (Pipe um mid ms b)
  assume "handle L r (p, w) = (p', w')"
  with Pipe obtain r0 where "pipe L p um mid ms b w = (r0, p', w')"
    by (metis handle.simps(4) prod.collapse snd_conv)
  from pipe_calls [OF this] show ?thesis
    by (auto intro: pipe_call_any)
qed

lemma serve_Nil [simp]: "serve L [] s = s"
  by (simp add: serve_def)

lemma serve_Cons [simp]: "serve L (r # rs) s = serve L rs (handle L r s)"
  by (simp add: serve_def)

lemma serve_calls:
  "serve L rs (p, w) = (p', w') \<Longrightarrow>
     p' = p\<lparr>engine := engine p'\<rparr> \<and>
     (\<exists>evs. trace w' = trace w @ evs \<and> (\<forall>e \<in> set evs. any_call p (fst e)))"
proof (induction rs arbitrary: p w)
  case Nil
  then show ?case by simp
next
  case (Cons r rs)
  obtain p1 w1 where step: "handle L r (p, w) = (p1, w1)"
    by (cases "handle L r (p, w)")
  from handle_calls [OF step] obtain evs1 where
    p1: "p1 = p\<lparr>engine := engine p1\<rparr>" and
    t1: "trace w1 = trace w @ evs1" and c1: "\<forall>e \<in> set evs1. any_call p (fst e)"
    by blast
  from Cons.prems step have "serve L rs (p1, w1) = (p', w')"
    by simp
  from Cons.IH [OF this] obtain evs2 where
    p2: "p' = p1\<lparr>engine := engine p'\<rparr>" and
    t2: "trace w' = trace w1 @ evs2" and c2: "\<forall>e \<in> set evs2. any_call p1 (fst e)"
    by blast
  from c2 p1 have c2': "\<forall>e \<in> set evs2. any_call p (fst e)"
    by (metis any_call_engine)
  from p1 p2 have "p' = p\<lparr>engine := engine p'\<rparr>"
    by (metis Pipeline.update_convs(8) Pipeline.surjective)
  moreover from t1 t2 have "trace w' = trace w @ (evs1 @ evs2)"
    by simp
  moreover from c1 c2' have "\<forall>e \<in> set (evs1 @ evs2). any_call p (fst e)"
    by auto
  ultimately show ?case by blast
qed

lemma serve_allocated: "allocated w \<Longrightarrow> serve L rs (p, w) = (p', w') \<Longrightarrow> allocated w'"
proof (induction rs arbitrary: p w)
  case Nil
  then show ?case by simp
next
  case (Cons r rs)
  obtain p1 w1 where step: "handle L r (p, w) = (p1, w1)"
    by (cases "handle L r (p, w)")
  have "allocated w1"
  proof (cases r)
    case Startup
    with step obtain r0 where "on_startup L p w = (r0, p1, w1)"
      by (metis handle.simps(1) prod.collapse snd_conv)
    with Cons.prems(1) show ?thesis
      using on_startup_eq init_db_connection_allocated by blast
  next
    case Shutdown
    with step Cons.prems(1) show ?thesis by (simp add: on_shutdown_def)
  next
    case Init_db
    with step obtain r0 where "init_db_connection L p w = (r0, p1, w1)"
      by (metis handle.simps(3) prod.collapse snd_conv)
    with Cons.prems(1) show ?thesis
      using init_db_connection_allocated by blast
  next
    case (Pipe um mid ms b)
    with step obtain r0 where "pipe L p um mid ms b w = (r0, p1, w1)"
      by (metis handle.simps(4) prod.collapse snd_conv)
    with Cons.prems(1) show ?thesis
      by (rule pipe_allocated)
  qed
  moreover from Cons.prems(2) step have "serve L rs (p1, w1) = (p', w')"
    by simp
  ultimately show ?case
    using Cons.IH by blast
qed

subsection \<open>A concrete run\<close>

lemma allocated_world0: "allocated world0"
  by (simp add: allocated_def world0_def returned_def)

lemma example_startup:
  "on_startup obliging example_pipeline world0 =
     (Inr (), example_pipeline\<lparr>engine := Some 0\<rparr>,
      \<lparr>trace = [(Call_create_engine ''postgresql+psycopg2://u:pw@db:5432/shop'', Inr 0)],
       next_ref = Suc 0\<rparr>)"
  by (simp add: on_startup_def init_db_connection_def invoke_def obliging_def
      example_pipeline_def world0_def engine_url_def)

lemma example_pipe:
  "pipe obliging (example_pipeline\<lparr>engine := Some 0\<rparr>) um mid ms b
     \<lparr>trace = [(Call_create_engine ''postgresql+psycopg2://u:pw@db:5432/shop'', Inr 0)],
      next_ref = Suc 0\<rparr> =
     (Inr [''4'', ''2''], example_pipeline\<lparr>engine := Some 0\<rparr>,
      \<lparr>trace = [(Call_create_engine ''postgresql+psycopg2://u:pw@db:5432/shop'', Inr 0),
                (Call_SQLDatabase (Some 0) [''db_table''], Inr (Suc 0)),
                (Call_Ollama ''phi3:medium-128k'' ''http://host.docker.internal:11434'' 180 30000,
                 Inr 2),
                (Call_PromptTemplate text_to_sql_prompt, Inr 3),
                (Call_NLSQLTableQueryEngine (Suc 0) [''db_table''] 2 ''local'' 3 True, Inr 4),
                (Call_query 4 um, Inr 5)],
       next_ref = 6\<rparr>)"
  by (simp add: pipe_def invoke_def obliging_def example_pipeline_def)

lemma example_serve:
  "serve obliging [Startup, Pipe um mid ms b] (example_pipeline, world0) =
     (example_pipeline\<lparr>engine := Some 0\<rparr>,
      \<lparr>trace = [(Call_create_engine ''postgresql+psycopg2://u:pw@db:5432/shop'', Inr 0),
                (Call_SQLDatabase (Some 0) [''db_table''], Inr (Suc 0)),
                (Call_Ollama ''phi3:medium-128k'' ''http://host.docker.internal:11434'' 180 30000,
                 Inr 2),
                (Call_PromptTemplate text_to_sql_prompt, Inr 3),
                (Call_NLSQLTableQueryEngine (Suc 0) [''db_table''] 2 ''local'' 3 True, Inr 4),
                (Call_query 4 um, Inr 5)],
       next_ref = 6\<rparr>)"
  by (simp add: example_startup example_pipe)

lemma example_serve_startup:
  "serve obliging [Startup] (example_pipeline, world0) =
     (example_pipeline\<lparr>engine := Some 0\<rparr>,
      \<lparr>trace = [(Call_create_engine ''postgresql+psycopg2://u:pw@db:5432/shop'', Inr 0)],
       next_ref = Suc 0\<rparr>)"
  by (simp add: example_startup)

subsection \<open>The table allow-list\<close>

text \<open>
  Claim C1. On an instance built by the constructor, whatever methods the host calls on it
  and with whatever \<open>user_message\<close>, \<open>model_id\<close>, \<open>messages\<close> and \<open>body\<close>, the
  attribute \<open>tables\<close> stays \<open>["db_table"]\<close>, and every call of \<open>SQLDatabase\<close> and of
  \<open>NLSQLTableQueryEngine\<close> receives exactly this list.
\<close>

theorem allow_list_fixed:
  assumes "init env = Inr p0" and "serve L rs (p0, w0) = (p, w)"
  shows "tables p = [''db_table''] \<and>
         (\<forall>e \<in> set (emitted w0 w).
            (\<forall>eng ts. fst e = Call_SQLDatabase eng ts \<longrightarrow> ts = [''db_table'']) \<and>
            (\<forall>db ts llm em t st.
               fst e = Call_NLSQLTableQueryEngine db ts llm em t st \<longrightarrow> ts = [''db_table'']))"
proof -
  from init_Inr [OF assms(1)] have t0: "tables p0 = [''db_table'']"
    by simp
  from serve_calls [OF assms(2)] obtain evs where
    p: "p = p0\<lparr>engine := engine p\<rparr>" and
    t: "trace w = trace w0 @ evs" and c: "\<forall>e \<in> set evs. any_call p0 (fst e)"
    by blast
  from p t0 have "tables p = [''db_table'']"
    by (metis Pipeline.select_convs(10) Pipeline.surjective Pipeline.update_convs(8))
  moreover from t have "emitted w0 w = evs"
    by (rule emitted_append)
  moreover from c t0 have
    "\<forall>e \<in> set evs.
       (\<forall>eng ts. fst e = Call_SQLDatabase eng ts \<longrightarrow> ts = [''db_table'']) \<and>
       (\<forall>db ts llm em t st.
          fst e = Call_NLSQLTableQueryEngine db ts llm em t st \<longrightarrow> ts = [''db_table''])"
    by (auto simp: any_call_def pipe_call_def)
  ultimately show ?thesis by simp
qed

theorem allow_list_fixed_witness:
  "init example_environ = Inr example_pipeline \<and>
   tables (fst (serve obliging [Startup, Pipe ''rows of other_table'' ''llama3'' [] ()]
             (example_pipeline, world0))) = [''db_table''] \<and>
   (Call_SQLDatabase (Some 0) [''db_table''], Inr (Suc 0)) \<in> set (emitted world0
        (snd (serve obliging [Startup, Pipe ''rows of other_table'' ''llama3'' [] ()]
             (example_pipeline, world0)))) \<and>
   \<not> (\<exists>e \<in> set (emitted world0
        (snd (serve obliging [Startup, Pipe ''rows of other_table'' ''llama3'' [] ()]
             (example_pipeline, world0)))).
         \<exists>eng. fst e = Call_SQLDatabase eng [''db_table'', ''other_table''])"
proof -
  define S where
    "S = serve obliging [Startup, Pipe ''rows of other_table'' ''llama3'' [] ()]
           (example_pipeline, world0)"
  have run: "serve obliging [Startup, Pipe ''rows of other_table'' ''llama3'' [] ()]
           (example_pipeline, world0) = (fst S, snd S)"
    by (simp add: S_def)
  have mem: "(Call_SQLDatabase (Some 0) [''db_table''], Inr (Suc 0))
               \<in> set (emitted world0 (snd S))"
    unfolding S_def example_serve by (simp add: emitted_def world0_def)
  from allow_list_fixed [OF init_example run] have
    t: "tables (fst S) = [''db_table'']" and
    a: "\<forall>e \<in> set (emitted world0 (snd S)).
          \<forall>eng ts. fst e = Call_SQLDatabase eng ts \<longrightarrow> ts = [''db_table'']"
    by simp_all
  have "\<not> (\<exists>e \<in> set (emitted world0 (snd S)).
            \<exists>eng. fst e = Call_SQLDatabase eng [''db_table'', ''other_table''])"
  proof
    assume "\<exists>e \<in> set (emitted world0 (snd S)).
              \<exists>eng. fst e = Call_SQLDatabase eng [''db_table'', ''other_table'']"
    then obtain e eng where "e \<in> set (emitted world0 (snd S))"
      and "fst e = Call_SQLDatabase eng [''db_table'', ''other_table'']"
      by blast
    with a have "[''db_table'', ''other_table''] = [''db_table'']"
      by blast
    then show False by simp
  qed
  with init_example t mem show ?thesis
    unfolding S_def by simp
qed

end
